theory Spec2Isabelle
  imports Main "HOL-Library.Word"
begin

section \<open>JavaScript values used by the backend\<close>

type_synonym byte = "8 word"

text \<open>Timestamps are instants on the store's clock.\<close>

type_synonym timestamp = nat

text \<open>
  An exception object: its \<open>name\<close> and \<open>message\<close> properties. The auth queries report
  \<open>(error as Error).message\<close>, the course queries report \<open>String(error)\<close>, which
  for an \<open>Error\<close> is \<open>Error.prototype.toString\<close>.
\<close>

record js_error =
  err_name :: string
  err_message :: string

definition String_error :: "js_error \<Rightarrow> string" where
  "String_error e =
     (if err_name e = [] then err_message e
      else if err_message e = [] then err_name e
      else err_name e @ '': '' @ err_message e)"

text \<open>\<open>DbResult<T>\<close> of \<open>results.types.ts\<close>; an optional property that is not set is \<open>None\<close>.\<close>

record 'a DbResult =
  success :: bool
  data :: "'a option"
  error :: "string option"

text \<open>Values of the properties of a row object, and plain objects as property lists.\<close>

datatype js_value = JString string | JBoolean bool | JDate timestamp

type_synonym js_object = "(string \<times> js_value) list"

text \<open>
  Object rest destructuring \<open>const { k1: _, k2: __, ...rest } = obj\<close>: \<open>rest\<close> receives the
  own properties of \<open>obj\<close> whose keys are not among the named ones.
\<close>

definition rest_without :: "string list \<Rightarrow> js_object \<Rightarrow> js_object" where
  "rest_without ks obj = filter (\<lambda>kv. fst kv \<notin> set ks) obj"

definition has_property :: "js_object \<Rightarrow> string \<Rightarrow> bool" where
  "has_property obj k = (k \<in> set (map fst obj))"

section \<open>Hex encoding of buffers\<close>

text \<open>\<open>Buffer.toString("hex")\<close>: two lower-case hexadecimal digits per byte.\<close>

definition hex_digits :: string where
  "hex_digits = ''0123456789abcdef''"

definition hex_digit :: "nat \<Rightarrow> char" where
  "hex_digit n = hex_digits ! n"

definition hex_byte :: "byte \<Rightarrow> string" where
  "hex_byte b = [hex_digit (unat b div 16), hex_digit (unat b mod 16)]"

definition toString_hex :: "byte list \<Rightarrow> string" where
  "toString_hex bs = concat (map hex_byte bs)"

text \<open>The decoder, used to show that the encoding loses nothing.\<close>

fun index_of :: "'a \<Rightarrow> 'a list \<Rightarrow> nat" where
  "index_of x [] = 0"
| "index_of x (y # ys) = (if x = y then 0 else Suc (index_of x ys))"

definition hex_value :: "char \<Rightarrow> nat" where
  "hex_value c = index_of c hex_digits"

fun from_hex :: "string \<Rightarrow> byte list" where
  "from_hex (h # l # cs) = word_of_nat (hex_value h * 16 + hex_value l) # from_hex cs"
| "from_hex _ = []"

section \<open>Credential engine (\<open>auth.util.ts\<close>)\<close>

text \<open>
  \<open>crypto.pbkdf2Sync(password, salt, iterations, keylen, digest)\<close> and
  \<open>crypto.randomBytes(size)\<close> belong to the runtime, not to this repository: they are
  parameters of the model. A \<open>random_source\<close> is the generator as one call sees it.
\<close>

type_synonym pbkdf2 = "string \<Rightarrow> string \<Rightarrow> nat \<Rightarrow> nat \<Rightarrow> string \<Rightarrow> byte list"

type_synonym random_source = "nat \<Rightarrow> byte list"

text \<open>The result object \<open>{ hashedPassword, salt }\<close> is the pair \<open>(hashedPassword, salt)\<close>.\<close>

definition createPasswordHash :: "pbkdf2 \<Rightarrow> random_source \<Rightarrow> string \<Rightarrow> string \<times> string" where
  "createPasswordHash pbkdf2Sync randomBytes password =
     (let salt = toString_hex (randomBytes 16);
          hash = toString_hex (pbkdf2Sync password salt 100000 64 ''sha512'')
      in (hash, salt))"

definition verifyPassword :: "pbkdf2 \<Rightarrow> string \<Rightarrow> string \<Rightarrow> string \<Rightarrow> bool" where
  "verifyPassword pbkdf2Sync password storedHash storedSalt =
     (let hash = toString_hex (pbkdf2Sync password storedSalt 100000 64 ''sha512'')
      in hash = storedHash)"

text \<open>
  Digest widths in bits of the digest names the runtime accepts, as far as the
  repository uses them.
\<close>

definition digest_bits :: "string \<Rightarrow> nat" where
  "digest_bits d =
     (if d = ''sha512'' then 512 else if d = ''sha384'' then 384
      else if d = ''sha256'' then 256 else if d = ''sha1'' then 160 else 0)"

section \<open>Schema (\<open>schema.ts\<close>)\<close>

datatype user_role = admin | consumer

datatype purchase_status = pending | completed | refunded

text \<open>
  One record per table, one field per column; a column without \<open>notNull()\<close> is an
  option. \<open>numeric(10, 2)\<close> amounts are counted in hundredths.
\<close>

record user =
  u_id :: string
  u_full_name :: string
  u_email :: string
  u_hashedPassword :: string
  u_saltPassword :: string
  u_created_at :: timestamp
  u_updated_at :: timestamp
  u_role :: user_role
  u_is_active :: bool

record course =
  c_id :: string
  c_admin_id :: "string option"
  c_course_name :: string
  c_price :: nat
  c_created_at :: timestamp
  c_updated_at :: timestamp
  c_is_deleted :: bool

record course_content =
  cc_id :: string
  cc_course_id :: "string option"
  cc_title :: string
  cc_description :: "string option"
  cc_content_type :: string
  cc_content_url :: string
  cc_order :: "int option"
  cc_created_at :: timestamp
  cc_updated_at :: timestamp
  cc_is_deleted :: bool

record purchase =
  p_id :: string
  p_user_id :: "string option"
  p_course_id :: "string option"
  p_purchase_date :: timestamp
  p_updated_at :: timestamp
  p_status :: purchase_status
  p_payment_method :: string
  p_amount :: nat

record course_enrollment =
  e_id :: string
  e_user_id :: string
  e_course_id :: string
  e_enrolled_at :: timestamp
  e_has_access :: bool

text \<open>
  The database behind \<open>db\<close>: the rows of each table in the order the server returns
  them, the value of \<open>NOW()\<close>, the error every statement raises while the connection is
  broken (if it is), and the error the driver raises for a violated unique constraint,
  by constraint name.
\<close>

record store =
  users_table :: "user list"
  courses_table :: "course list"
  course_content_table :: "course_content list"
  purchase_history_table :: "purchase list"
  course_enrollments_table :: "course_enrollment list"
  now :: timestamp
  unavailable :: "js_error option"
  unique_violation :: "string \<Rightarrow> js_error"

text \<open>\<open>db.select().from(table).where(cond)\<close>: the rows satisfying \<open>cond\<close>, or an exception.\<close>

definition select_where :: "store \<Rightarrow> (store \<Rightarrow> 'a list) \<Rightarrow> ('a \<Rightarrow> bool) \<Rightarrow> js_error + 'a list" where
  "select_where db table cond =
     (case unavailable db of Some e \<Rightarrow> Inl e | None \<Rightarrow> Inr (filter cond (table db)))"

text \<open>\<open>db.query.table.findFirst({ where })\<close>: the first such row or \<open>undefined\<close>, or an exception.\<close>

definition findFirst :: "store \<Rightarrow> (store \<Rightarrow> 'a list) \<Rightarrow> ('a \<Rightarrow> bool) \<Rightarrow> js_error + 'a option" where
  "findFirst db table cond =
     (case unavailable db of Some e \<Rightarrow> Inl e | None \<Rightarrow> Inr (find cond (table db)))"

text \<open>
  \<open>db.insert(users_table).values({...}).returning()\<close> for one row: the primary key and
  the unique email are enforced by the server; \<open>created_at\<close> and \<open>updated_at\<close> default to
  \<open>NOW()\<close>. The statement returns the array of the one inserted row, whose only element
  \<open>const [newUser] = ...\<close> takes.
\<close>

definition insert_users ::
  "store \<Rightarrow> string \<Rightarrow> string \<Rightarrow> string \<Rightarrow> string \<Rightarrow> string \<Rightarrow> user_role \<Rightarrow> bool
     \<Rightarrow> js_error + (user \<times> store)" where
  "insert_users db uid full_name email hashedPassword saltPassword role is_active =
     (case unavailable db of
        Some e \<Rightarrow> Inl e
      | None \<Rightarrow>
          if \<exists>u \<in> set (users_table db). u_id u = uid
            then Inl (unique_violation db ''users_pkey'')
          else if \<exists>u \<in> set (users_table db). u_email u = email
            then Inl (unique_violation db ''users_email_unique'')
          else
            let row = \<lparr>u_id = uid, u_full_name = full_name, u_email = email,
                       u_hashedPassword = hashedPassword, u_saltPassword = saltPassword,
                       u_created_at = now db, u_updated_at = now db,
                       u_role = role, u_is_active = is_active\<rparr>
            in Inr (row, db\<lparr>users_table := users_table db @ [row]\<rparr>))"

text \<open>The row object the driver hands to the application for a \<open>users\<close> row.\<close>

definition role_name :: "user_role \<Rightarrow> string" where
  "role_name r = (case r of admin \<Rightarrow> ''admin'' | consumer \<Rightarrow> ''consumer'')"

definition role_value :: "string \<Rightarrow> user_role" where
  "role_value s = (if s = ''admin'' then admin else consumer)"

definition user_object :: "user \<Rightarrow> js_object" where
  "user_object u =
     [(''id'', JString (u_id u)),
      (''full_name'', JString (u_full_name u)),
      (''email'', JString (u_email u)),
      (''hashedPassword'', JString (u_hashedPassword u)),
      (''saltPassword'', JString (u_saltPassword u)),
      (''created_at'', JDate (u_created_at u)),
      (''updated_at'', JDate (u_updated_at u)),
      (''role'', JString (role_name (u_role u))),
      (''is_active'', JBoolean (u_is_active u))]"

section \<open>Auth queries (\<open>auth.queries.ts\<close>)\<close>

record SignupRequest =
  sr_full_name :: string
  sr_email :: string
  sr_password :: string
  sr_role :: "string option"

record LoginRequest =
  lr_email :: string
  lr_password :: string

definition checkEmail :: "store \<Rightarrow> string \<Rightarrow> bool DbResult" where
  "checkEmail db email =
     (case findFirst db users_table (\<lambda>users. u_email users = email) of
        Inr user \<Rightarrow> \<lparr>success = True, data = Some (user \<noteq> None), error = None\<rparr>
      | Inl err \<Rightarrow> \<lparr>success = False, data = None, error = Some (err_message err)\<rparr>)"

text \<open>
  \<open>createNewUser\<close> awaits the store twice. \<open>concurrent\<close> is what other requests commit
  between the existence check and the insert (\<open>id\<close> when the request runs alone);
  \<open>randomUUID\<close> is the value \<open>crypto.randomUUID()\<close> returns. The function returns its
  result and the store it leaves.
\<close>

definition createNewUser ::
  "pbkdf2 \<Rightarrow> random_source \<Rightarrow> string \<Rightarrow> (store \<Rightarrow> store) \<Rightarrow> store \<Rightarrow> SignupRequest
     \<Rightarrow> js_object DbResult \<times> store" where
  "createNewUser pbkdf2Sync randomBytes randomUUID concurrent db signupData =
     (let full_name = sr_full_name signupData;
          email = sr_email signupData;
          password = sr_password signupData;
          role = (case sr_role signupData of None \<Rightarrow> ''consumer'' | Some r \<Rightarrow> r)
      in
      if full_name = [] \<or> email = [] \<or> password = [] then
        (\<lparr>success = False, data = None,
          error = Some ''All fields are required: full_name, email, and password''\<rparr>, db)
      else if role \<noteq> ''admin'' \<and> role \<noteq> ''consumer'' then
        (\<lparr>success = False, data = None, error = Some ''Invalid user role''\<rparr>, db)
      else
        let emailExists = checkEmail db email in
        if \<not> success emailExists then
          (\<lparr>success = False, data = None, error = error emailExists\<rparr>, db)
        else if data emailExists = Some True then
          (\<lparr>success = False, data = None, error = Some ''Email already registered''\<rparr>, db)
        else
          let (hashedPassword, salt) = createPasswordHash pbkdf2Sync randomBytes password;
              userId = randomUUID;
              db1 = concurrent db
          in
          case insert_users db1 userId full_name email hashedPassword salt (role_value role) True of
            Inl err \<Rightarrow> (\<lparr>success = False, data = None, error = Some (err_message err)\<rparr>, db1)
          | Inr (newUser, db2) \<Rightarrow>
              (\<lparr>success = True,
                data = Some (rest_without [''hashedPassword'', ''saltPassword''] (user_object newUser)),
                error = None\<rparr>, db2))"

definition loginUser :: "pbkdf2 \<Rightarrow> store \<Rightarrow> LoginRequest \<Rightarrow> js_object DbResult" where
  "loginUser pbkdf2Sync db loginData =
     (let email = lr_email loginData;
          password = lr_password loginData
      in
      if email = [] \<or> password = [] then
        \<lparr>success = False, data = None, error = Some ''Email and password are required''\<rparr>
      else
        case findFirst db users_table (\<lambda>users. u_email users = email) of
          Inl err \<Rightarrow> \<lparr>success = False, data = None, error = Some (err_message err)\<rparr>
        | Inr None \<Rightarrow> \<lparr>success = False, data = None, error = Some ''Invalid email or password''\<rparr>
        | Inr (Some user) \<Rightarrow>
            if \<not> u_is_active user then
              \<lparr>success = False, data = None, error = Some ''Account is deactivated''\<rparr>
            else
              let isValidPassword =
                    verifyPassword pbkdf2Sync password (u_hashedPassword user) (u_saltPassword user)
              in
              if \<not> isValidPassword then
                \<lparr>success = False, data = None, error = Some ''Invalid email or password''\<rparr>
              else
                \<lparr>success = True,
                 data = Some (rest_without [''hashedPassword'', ''saltPassword''] (user_object user)),
                 error = None\<rparr>)"

definition getUserById :: "store \<Rightarrow> string \<Rightarrow> js_object DbResult" where
  "getUserById db userId =
     (case findFirst db users_table (\<lambda>users. u_id users = userId) of
        Inl err \<Rightarrow> \<lparr>success = False, data = None, error = Some (err_message err)\<rparr>
      | Inr None \<Rightarrow> \<lparr>success = False, data = None, error = Some ''User not found''\<rparr>
      | Inr (Some user) \<Rightarrow>
          if \<not> u_is_active user then
            \<lparr>success = False, data = None, error = Some ''Account is deactivated''\<rparr>
          else
            \<lparr>success = True,
             data = Some (rest_without [''hashedPassword'', ''saltPassword''] (user_object user)),
             error = None\<rparr>)"

text \<open>The keys of \<open>PublicUser = Omit<User, "hashedPassword" | "saltPassword">\<close>.\<close>

definition public_keys :: "string list" where
  "public_keys = [''id'', ''full_name'', ''email'', ''created_at'', ''updated_at'', ''role'', ''is_active'']"

section \<open>Course queries (\<open>course.queries.ts\<close>)\<close>

definition activeCourse :: "store \<Rightarrow> course list DbResult" where
  "activeCourse db =
     (case select_where db courses_table (\<lambda>c. c_is_deleted c = False) of
        Inr courses \<Rightarrow> \<lparr>success = True, data = Some courses, error = None\<rparr>
      | Inl err \<Rightarrow> \<lparr>success = False, data = None, error = Some (String_error err)\<rparr>)"

text \<open>\<open>result[0]\<close> of an empty array is \<open>undefined\<close>, so \<open>data\<close> is then not set.\<close>

definition detailCourse :: "store \<Rightarrow> string \<Rightarrow> course DbResult" where
  "detailCourse db cid =
     (if cid = [] then
        \<lparr>success = False, data = None, error = Some ''ID is needed!''\<rparr>
      else
        case select_where db courses_table (\<lambda>c. c_id c = cid) of
          Inr result \<Rightarrow>
            \<lparr>success = True,
             data = (case result of [] \<Rightarrow> None | course # _ \<Rightarrow> Some course),
             error = None\<rparr>
        | Inl err \<Rightarrow> \<lparr>success = False, data = None, error = Some (String_error err)\<rparr>)"

text \<open>
  \<open>isUserEnrolled\<close> binds \<open>enrollment\<close> to \<open>result.length > 0\<close> and then returns the
  literal \<open>{ success: true, data: true }\<close>.
\<close>

definition isUserEnrolled :: "store \<Rightarrow> string \<Rightarrow> string \<Rightarrow> bool DbResult" where
  "isUserEnrolled db userId courseId =
     (if userId = [] \<or> courseId = [] then
        \<lparr>success = False, data = None, error = Some ''User ID and Course ID are required!''\<rparr>
      else
        case select_where db course_enrollments_table
               (\<lambda>e. e_course_id e = courseId \<and> e_user_id e = userId) of
          Inr result \<Rightarrow>
            (let enrollment = (length result > 0)
             in \<lparr>success = True, data = Some True, error = None\<rparr>)
        | Inl err \<Rightarrow> \<lparr>success = False, data = None, error = Some (String_error err)\<rparr>)"

text \<open>
  In \<open>getCourseContent\<close> the test \<open>!courseContent\<close> is on an array, which is never falsy:
  the branch "Course content not found." is written out with the condition \<open>False\<close>.
\<close>

definition getCourseContent :: "store \<Rightarrow> string \<Rightarrow> string \<Rightarrow> course_content list DbResult" where
  "getCourseContent db userId courseId =
     (if userId = [] \<or> courseId = [] then
        \<lparr>success = False, data = None, error = Some ''User ID and Course ID are required!''\<rparr>
      else
        let isEnrolled = isUserEnrolled db userId courseId in
        if \<not> success isEnrolled \<or> data isEnrolled \<noteq> Some True then
          \<lparr>success = False, data = None,
           error = Some ''Access denied. User is not enrolled in the course.''\<rparr>
        else
          case select_where db course_content_table (\<lambda>c. cc_course_id c = Some courseId) of
            Inr courseContent \<Rightarrow>
              if False then
                \<lparr>success = False, data = None, error = Some ''Course content not found.''\<rparr>
              else \<lparr>success = True, data = Some courseContent, error = None\<rparr>
          | Inl err \<Rightarrow> \<lparr>success = False, data = None, error = Some (String_error err)\<rparr>)"

text \<open>
  What the specification asks of the two operations, to compare them with: access means
  an enrollment row of the pair with \<open>has_access\<close> set; content is listed without the
  soft-deleted items, by \<open>order\<close> ascending, the items without an order last and
  by creation time among themselves.
\<close>

definition spec_canAccessContent :: "store \<Rightarrow> string \<Rightarrow> string \<Rightarrow> bool" where
  "spec_canAccessContent db userId courseId =
     (\<exists>e \<in> set (course_enrollments_table db).
        e_user_id e = userId \<and> e_course_id e = courseId \<and> e_has_access e)"

definition spec_content_before :: "course_content \<Rightarrow> course_content \<Rightarrow> bool" where
  "spec_content_before a b =
     (case (cc_order a, cc_order b) of
        (Some x, Some y) \<Rightarrow> x \<le> y
      | (Some x, None) \<Rightarrow> True
      | (None, Some y) \<Rightarrow> False
      | (None, None) \<Rightarrow> cc_created_at a \<le> cc_created_at b)"

fun spec_ordered :: "course_content list \<Rightarrow> bool" where
  "spec_ordered [] = True"
| "spec_ordered (a # rest) = ((\<forall>b \<in> set rest. spec_content_before a b) \<and> spec_ordered rest)"

section \<open>Purchase status transitions\<close>

datatype transition_error = InvalidTransition | NotFound

text \<open>
  Modelled from the spec: \<open>confirmPayment\<close> and \<open>processRefund\<close>, which are not among the
  source files (the schema gives only the \<open>purchase_status\<close> enum and the two tables).
  Section 4.3 of the specification: \<open>pending \<rightarrow> completed\<close> on payment confirmation creates
  or updates the enrollment of the purchase's user and course with \<open>has_access = true\<close>,
  setting \<open>enrolled_at\<close> when it creates it; \<open>completed \<rightarrow> refunded\<close> on refund sets
  \<open>has_access = false\<close> on that enrollment and keeps the row; every other transition
  fails with \<open>InvalidTransition\<close>, an unknown purchase with \<open>NotFound\<close>; \<open>updated_at\<close> is
  refreshed on the mutation. \<open>enrollmentId\<close> is the identifier for an enrollment row
  that has to be created. Each operation returns its result and the store it leaves.
\<close>

definition enrollment_of :: "store \<Rightarrow> purchase \<Rightarrow> course_enrollment option" where
  "enrollment_of db p =
     find (\<lambda>e. Some (e_user_id e) = p_user_id p \<and> Some (e_course_id e) = p_course_id p)
       (course_enrollments_table db)"

definition set_status :: "store \<Rightarrow> string \<Rightarrow> purchase_status \<Rightarrow> purchase list" where
  "set_status db purchaseId st =
     map (\<lambda>q. if p_id q = purchaseId then q\<lparr>p_status := st, p_updated_at := now db\<rparr> else q)
       (purchase_history_table db)"

definition set_access :: "store \<Rightarrow> purchase \<Rightarrow> bool \<Rightarrow> course_enrollment list" where
  "set_access db p access =
     map (\<lambda>e. if Some (e_user_id e) = p_user_id p \<and> Some (e_course_id e) = p_course_id p
               then e\<lparr>e_has_access := access\<rparr> else e)
       (course_enrollments_table db)"

definition confirmPayment ::
  "string \<Rightarrow> store \<Rightarrow> string
     \<Rightarrow> (transition_error + purchase \<times> course_enrollment option) \<times> store" where
  "confirmPayment enrollmentId db purchaseId =
     (case find (\<lambda>p. p_id p = purchaseId) (purchase_history_table db) of
        None \<Rightarrow> (Inl NotFound, db)
      | Some p \<Rightarrow>
          if p_status p \<noteq> pending then (Inl InvalidTransition, db)
          else
            let p1 = p\<lparr>p_status := completed, p_updated_at := now db\<rparr>;
                enrollments =
                  (case enrollment_of db p of
                     Some e \<Rightarrow> set_access db p True
                   | None \<Rightarrow>
                       (case (p_user_id p, p_course_id p) of
                          (Some u, Some c) \<Rightarrow>
                            course_enrollments_table db @
                              [\<lparr>e_id = enrollmentId, e_user_id = u, e_course_id = c,
                                e_enrolled_at = now db, e_has_access = True\<rparr>]
                        | _ \<Rightarrow> course_enrollments_table db));
                db1 = db\<lparr>purchase_history_table := set_status db purchaseId completed,
                         course_enrollments_table := enrollments\<rparr>
            in (Inr (p1, enrollment_of db1 p), db1))"

definition processRefund ::
  "store \<Rightarrow> string \<Rightarrow> (transition_error + purchase \<times> course_enrollment option) \<times> store" where
  "processRefund db purchaseId =
     (case find (\<lambda>p. p_id p = purchaseId) (purchase_history_table db) of
        None \<Rightarrow> (Inl NotFound, db)
      | Some p \<Rightarrow>
          if p_status p \<noteq> completed then (Inl InvalidTransition, db)
          else
            let p1 = p\<lparr>p_status := refunded, p_updated_at := now db\<rparr>;
                db1 = db\<lparr>purchase_history_table := set_status db purchaseId refunded,
                         course_enrollments_table := set_access db p False\<rparr>
            in (Inr (p1, enrollment_of db1 p), db1))"

section \<open>Example data\<close>

text \<open>
  Stand-ins for the runtime's primitives in the worked examples: a derivation that
  returns \<open>keylen\<close> copies of the password's length, and a generator that returns
  \<open>size\<close> copies of one byte.
\<close>

definition mock_pbkdf2 :: pbkdf2 where
  "mock_pbkdf2 password salt iterations keylen digest =
     replicate keylen (word_of_nat (length password))"

definition mock_randomBytes :: random_source where
  "mock_randomBytes n = replicate n 171"

text \<open>
  A driver whose unique-violation error carries the server's message, a store with no
  rows, and a store with one course, five content items (the last one soft-deleted) and
  one enrollment.
\<close>

definition pg_unique_violation :: "string \<Rightarrow> js_error" where
  "pg_unique_violation c =
     \<lparr>err_name = ''error'',
      err_message = ''duplicate key value violates unique constraint '' @ c\<rparr>"

definition empty_store :: store where
  "empty_store =
     \<lparr>users_table = [], courses_table = [], course_content_table = [],
      purchase_history_table = [], course_enrollments_table = [],
      now = 100, unavailable = None, unique_violation = pg_unique_violation\<rparr>"

definition demo_course :: course where
  "demo_course =
     \<lparr>c_id = ''c1'', c_admin_id = None, c_course_name = ''Intro'', c_price = 4999,
      c_created_at = 1, c_updated_at = 1, c_is_deleted = False\<rparr>"

definition content_item :: "string \<Rightarrow> int option \<Rightarrow> timestamp \<Rightarrow> bool \<Rightarrow> course_content" where
  "content_item cid ord t del =
     \<lparr>cc_id = cid, cc_course_id = Some ''c1'', cc_title = cid, cc_description = None,
      cc_content_type = ''video'', cc_content_url = ''https://cdn.example.com/'' @ cid,
      cc_order = ord, cc_created_at = t, cc_updated_at = t, cc_is_deleted = del\<rparr>"

definition demo_store :: store where
  "demo_store =
     empty_store
       \<lparr>courses_table := [demo_course],
        course_content_table :=
          [content_item ''k1'' (Some 3) 1 False, content_item ''k2'' (Some 1) 2 False,
           content_item ''k3'' None 3 False, content_item ''k4'' (Some 2) 4 False,
           content_item ''k5'' (Some 0) 5 True],
        course_enrollments_table :=
          [\<lparr>e_id = ''e1'', e_user_id = ''u1'', e_course_id = ''c1'', e_enrolled_at = 1,
            e_has_access = True\<rparr>]\<rparr>"

text \<open>
  Two stored users, Alice (active) and Bob (deactivated), whose credentials were made
  by \<open>createPasswordHash\<close>; their public objects; two signup requests, one for a new
  email and one for Alice's; a concurrent signup that commits Alice between another
  request's existence check and its insert; and a store with one pending purchase.
\<close>

definition alice :: user where
  "alice =
     \<lparr>u_id = ''u1'', u_full_name = ''Alice'', u_email = ''a@x.com'',
      u_hashedPassword = fst (createPasswordHash mock_pbkdf2 mock_randomBytes ''hunter2''),
      u_saltPassword = snd (createPasswordHash mock_pbkdf2 mock_randomBytes ''hunter2''),
      u_created_at = 1, u_updated_at = 1, u_role = consumer, u_is_active = True\<rparr>"

definition bob :: user where
  "bob =
     \<lparr>u_id = ''u2'', u_full_name = ''Bob'', u_email = ''b@x.com'',
      u_hashedPassword = fst (createPasswordHash mock_pbkdf2 mock_randomBytes ''swordfish''),
      u_saltPassword = snd (createPasswordHash mock_pbkdf2 mock_randomBytes ''swordfish''),
      u_created_at = 2, u_updated_at = 2, u_role = admin, u_is_active = False\<rparr>"

definition users_store :: store where
  "users_store = empty_store\<lparr>users_table := [alice, bob]\<rparr>"

definition alice_public :: js_object where
  "alice_public =
     [(''id'', JString ''u1''), (''full_name'', JString ''Alice''), (''email'', JString ''a@x.com''),
      (''created_at'', JDate 1), (''updated_at'', JDate 1), (''role'', JString ''consumer''),
      (''is_active'', JBoolean True)]"

definition carol_public :: js_object where
  "carol_public =
     [(''id'', JString ''u3''), (''full_name'', JString ''Carol''), (''email'', JString ''c@x.com''),
      (''created_at'', JDate 100), (''updated_at'', JDate 100), (''role'', JString ''consumer''),
      (''is_active'', JBoolean True)]"

definition carol_request :: SignupRequest where
  "carol_request =
     \<lparr>sr_full_name = ''Carol'', sr_email = ''c@x.com'', sr_password = ''letmein'', sr_role = None\<rparr>"

definition alice_again :: SignupRequest where
  "alice_again =
     \<lparr>sr_full_name = ''Alice Two'', sr_email = ''a@x.com'', sr_password = ''pw'', sr_role = None\<rparr>"

definition rival_signup :: "store \<Rightarrow> store" where
  "rival_signup db = db\<lparr>users_table := users_table db @ [alice]\<rparr>"

definition demo_purchase :: purchase where
  "demo_purchase =
     \<lparr>p_id = ''p1'', p_user_id = Some ''u2'', p_course_id = Some ''c1'', p_purchase_date = 50,
      p_updated_at = 50, p_status = pending, p_payment_method = ''stripe'', p_amount = 4999\<rparr>"

definition purchase_store :: store where
  "purchase_store = demo_store\<lparr>purchase_history_table := [demo_purchase]\<rparr>"

section \<open>Properties of the hex encoding\<close>

lemma hex_digits_all:
  "\<forall>n \<in> set [0..<16]. hex_value (hex_digit n) = n \<and> hex_digit n \<in> set hex_digits"
  by code_simp

lemma hex_value_hex_digit: "n < 16 \<Longrightarrow> hex_value (hex_digit n) = n"
  using hex_digits_all by simp

lemma hex_digit_in: "n < 16 \<Longrightarrow> hex_digit n \<in> set hex_digits"
  using hex_digits_all by simp

lemma high_nibble: "unat (b::byte) div 16 < 16"
proof -
  have "unat b < 256" using unsigned_less [of b] by simp
  then show ?thesis by simp
qed

lemma from_hex_byte: "from_hex (hex_byte b @ cs) = b # from_hex cs"
  by (simp add: hex_byte_def hex_value_hex_digit high_nibble)

lemma from_hex_toString_hex: "from_hex (toString_hex bs) = bs"
  by (induction bs) (simp_all add: toString_hex_def from_hex_byte)

lemma length_toString_hex: "length (toString_hex bs) = 2 * length bs"
  by (induction bs) (simp_all add: toString_hex_def hex_byte_def)

lemma toString_hex_digits: "set (toString_hex bs) \<subseteq> set hex_digits"
  by (induction bs) (simp_all add: toString_hex_def hex_byte_def hex_digit_in high_nibble)

lemma toString_hex_inj: "toString_hex a = toString_hex b \<longleftrightarrow> a = b"
  by (metis from_hex_toString_hex)

section \<open>Credential engine\<close>

text \<open>
  C7. Hashing then verifying round-trips: for every password \<open>p\<close>, the hash and salt
  that \<open>createPasswordHash\<close> returns for \<open>p\<close> are accepted by \<open>verifyPassword\<close> for \<open>p\<close>,
  and this holds for each of two independent calls on the same \<open>p\<close>, each drawing its
  own salt from the generator (\<open>randomBytes1\<close>, \<open>randomBytes2\<close>), whatever the key
  derivation function computes.
\<close>

theorem hash_then_verify:
  "verifyPassword pbkdf2Sync p
     (fst (createPasswordHash pbkdf2Sync randomBytes1 p))
     (snd (createPasswordHash pbkdf2Sync randomBytes1 p)) \<and>
   verifyPassword pbkdf2Sync p
     (fst (createPasswordHash pbkdf2Sync randomBytes2 p))
     (snd (createPasswordHash pbkdf2Sync randomBytes2 p))"
  by (simp add: verifyPassword_def createPasswordHash_def Let_def)

text \<open>
  C8. \<open>createPasswordHash\<close> asks the generator for 16 bytes and encodes them as 32
  hexadecimal digits, from which the 16 bytes can be read back; it derives the hash by
  the password-based key derivation function with 100000 iterations, a 64-byte key and
  the digest \<open>sha512\<close>, which is 512 bits wide, over the password and that salt text; the
  hash is the hex encoding of the derived key, 128 hexadecimal digits, and is the same
  whenever the password and the salt are the same. The hypotheses say that the runtime's
  primitives return as many bytes as they are asked for.
\<close>

theorem createPasswordHash_parameters:
  assumes rb: "length (randomBytes 16) = 16"
      and kl: "\<forall>p s i n d. length (pbkdf2Sync p s i n d) = n"
  shows "(let (hash, salt) = createPasswordHash pbkdf2Sync randomBytes password in
            salt = toString_hex (randomBytes 16) \<and>
            from_hex salt = randomBytes 16 \<and> 16 \<le> length (from_hex salt) \<and>
            length salt = 32 \<and> set salt \<subseteq> set hex_digits \<and>
            hash = toString_hex (pbkdf2Sync password salt 100000 64 ''sha512'') \<and>
            512 \<le> digest_bits ''sha512'' \<and>
            length hash = 128 \<and> set hash \<subseteq> set hex_digits \<and>
            (\<forall>randomBytes'. snd (createPasswordHash pbkdf2Sync randomBytes' password) = salt
               \<longrightarrow> fst (createPasswordHash pbkdf2Sync randomBytes' password) = hash))"
  using rb kl
  by (simp add: createPasswordHash_def Let_def from_hex_toString_hex length_toString_hex
        toString_hex_digits digest_bits_def)

theorem createPasswordHash_parameters_witness:
  "length (mock_randomBytes 16) = 16 \<and>
   (\<forall>p s i n d. length (mock_pbkdf2 p s i n d) = n) \<and>
   length (fst (createPasswordHash mock_pbkdf2 mock_randomBytes ''hunter2'')) = 128 \<and>
   length (snd (createPasswordHash mock_pbkdf2 mock_randomBytes ''hunter2'')) = 32"
proof -
  have rb: "length (mock_randomBytes 16) = 16" by (simp add: mock_randomBytes_def)
  have kl: "\<forall>p s i n d. length (mock_pbkdf2 p s i n d) = n" by (simp add: mock_pbkdf2_def)
  have "length (fst (createPasswordHash mock_pbkdf2 mock_randomBytes ''hunter2'')) = 128 \<and>
        length (snd (createPasswordHash mock_pbkdf2 mock_randomBytes ''hunter2'')) = 32"
    using createPasswordHash_parameters
      [where randomBytes = mock_randomBytes and pbkdf2Sync = mock_pbkdf2 and password = "''hunter2''",
       OF rb kl]
    unfolding Let_def split_beta by blast
  with rb kl show ?thesis by blast
qed

section \<open>Course queries\<close>

lemma isUserEnrolled_result:
  "isUserEnrolled db userId courseId =
     (if userId = [] \<or> courseId = [] then
        \<lparr>success = False, data = None, error = Some ''User ID and Course ID are required!''\<rparr>
      else case unavailable db of
        None \<Rightarrow> \<lparr>success = True, data = Some True, error = None\<rparr>
      | Some err \<Rightarrow> \<lparr>success = False, data = None, error = Some (String_error err)\<rparr>)"
  by (simp add: isUserEnrolled_def select_where_def Let_def split: option.splits)

text \<open>
  C1. The claim is that \<open>isUserEnrolled\<close> returns true exactly when an enrollment row of
  the pair with \<open>has_access = true\<close> exists. The function does not do that: for
  non-empty identifiers and a store that answers, it returns \<open>success: true, data: true\<close>
  whatever the lookup found. The example evaluates it for a user without any enrollment
  row, where the specification's access check is false.
\<close>

theorem isUserEnrolled_always_true:
  assumes "userId \<noteq> []" and "courseId \<noteq> []" and "unavailable db = None"
  shows "isUserEnrolled db userId courseId = \<lparr>success = True, data = Some True, error = None\<rparr>"
  using assms by (simp add: isUserEnrolled_result)

theorem isUserEnrolled_always_true_witness:
  "isUserEnrolled demo_store ''u2'' ''c1'' = \<lparr>success = True, data = Some True, error = None\<rparr> \<and>
   \<not> spec_canAccessContent demo_store ''u2'' ''c1''"
proof -
  have "isUserEnrolled demo_store ''u2'' ''c1'' = \<lparr>success = True, data = Some True, error = None\<rparr>"
    using isUserEnrolled_always_true [of "''u2''" "''c1''" demo_store]
    by (simp add: demo_store_def empty_store_def)
  moreover have "\<not> spec_canAccessContent demo_store ''u2'' ''c1''"
    by (simp add: spec_canAccessContent_def demo_store_def empty_store_def)
  ultimately show ?thesis by simp
qed

text \<open>
  C2. The claim is that \<open>getCourseContent\<close> lists the content by \<open>order\<close> ascending,
  without the soft-deleted items, the items without an order last. The function does
  not do that: for non-empty identifiers and a store that answers, it returns the rows
  of the course as the store holds them, neither sorted nor filtered. The example has
  the order values 3, 1, null, 2 and a soft-deleted fifth item, and gets all five back
  in that sequence.
\<close>

theorem getCourseContent_table_rows:
  assumes "userId \<noteq> []" and "courseId \<noteq> []" and "unavailable db = None"
  shows "getCourseContent db userId courseId =
           \<lparr>success = True,
            data = Some (filter (\<lambda>c. cc_course_id c = Some courseId) (course_content_table db)),
            error = None\<rparr>"
  using assms by (simp add: getCourseContent_def isUserEnrolled_result select_where_def)

theorem getCourseContent_table_rows_witness:
  "data (getCourseContent demo_store ''u1'' ''c1'') = Some (course_content_table demo_store) \<and>
   map cc_order (course_content_table demo_store) = [Some 3, Some 1, None, Some 2, Some 0] \<and>
   map cc_is_deleted (course_content_table demo_store) = [False, False, False, False, True] \<and>
   \<not> spec_ordered (course_content_table demo_store)"
proof -
  have "data (getCourseContent demo_store ''u1'' ''c1'') = Some (course_content_table demo_store)"
    using getCourseContent_table_rows [of "''u1''" "''c1''" demo_store]
    by (simp add: demo_store_def empty_store_def content_item_def)
  moreover have "map cc_order (course_content_table demo_store) = [Some 3, Some 1, None, Some 2, Some 0]"
    by (simp add: demo_store_def empty_store_def content_item_def)
  moreover have "map cc_is_deleted (course_content_table demo_store) = [False, False, False, False, True]"
    by (simp add: demo_store_def empty_store_def content_item_def)
  moreover have "\<not> spec_ordered (course_content_table demo_store)"
    by (simp add: demo_store_def empty_store_def content_item_def spec_content_before_def)
  ultimately show ?thesis by simp
qed

text \<open>
  C9. For every non-empty id that matches no course in a store that answers,
  \<open>detailCourse\<close> returns \<open>success: true\<close> with \<open>data\<close> not set; it returns a failure
  exactly when the id is empty or the store raises an exception.
\<close>

theorem detailCourse_unknown_id:
  "(cid \<noteq> [] \<and> unavailable db = None \<and> cid \<notin> set (map c_id (courses_table db))
      \<longrightarrow> detailCourse db cid = \<lparr>success = True, data = None, error = None\<rparr>) \<and>
   (\<not> success (detailCourse db cid) \<longleftrightarrow> cid = [] \<or> unavailable db \<noteq> None)"
proof -
  have "filter (\<lambda>c. c_id c = cid) (courses_table db) = []"
    if "cid \<notin> set (map c_id (courses_table db))"
    using that by (induction "courses_table db") (auto simp: filter_empty_conv)
  then show ?thesis
    by (auto simp: detailCourse_def select_where_def split: option.splits)
qed

theorem detailCourse_unknown_id_witness:
  "detailCourse demo_store ''c2'' = \<lparr>success = True, data = None, error = None\<rparr> \<and>
   \<not> success (detailCourse demo_store []) \<and>
   \<not> success (detailCourse (demo_store\<lparr>unavailable := Some \<lparr>err_name = ''Error'', err_message = ''connection refused''\<rparr>\<rparr>) ''c2'')"
proof -
  have "detailCourse demo_store ''c2'' = \<lparr>success = True, data = None, error = None\<rparr>"
    using detailCourse_unknown_id [of "''c2''" demo_store]
    by (simp add: demo_store_def empty_store_def demo_course_def)
  moreover have "\<not> success (detailCourse demo_store [])"
    using detailCourse_unknown_id [of "[]" demo_store] by simp
  moreover have "\<not> success (detailCourse (demo_store\<lparr>unavailable := Some \<lparr>err_name = ''Error'', err_message = ''connection refused''\<rparr>\<rparr>) ''c2'')"
    using detailCourse_unknown_id [of "''c2''" "demo_store\<lparr>unavailable := Some \<lparr>err_name = ''Error'', err_message = ''connection refused''\<rparr>\<rparr>"] by simp
  ultimately show ?thesis by simp
qed

section \<open>Auth queries\<close>

lemma public_user_keys:
  "map fst (rest_without [''hashedPassword'', ''saltPassword''] (user_object u)) = public_keys"
  by (simp add: rest_without_def user_object_def public_keys_def)

lemma public_user_hides:
  "\<not> has_property (rest_without [''hashedPassword'', ''saltPassword''] (user_object u)) ''hashedPassword'' \<and>
   \<not> has_property (rest_without [''hashedPassword'', ''saltPassword''] (user_object u)) ''saltPassword''"
  by (simp add: has_property_def public_user_keys public_keys_def)

lemma createNewUser_data:
  assumes "data (fst (createNewUser k rb uuid conc db sreq)) = Some pu"
  shows "\<exists>u. pu = rest_without [''hashedPassword'', ''saltPassword''] (user_object u)"
  using assms
  by (auto simp: createNewUser_def Let_def split_beta split: if_splits sum.splits)

lemma loginUser_data:
  assumes "data (loginUser k db lreq) = Some pu"
  shows "\<exists>u. pu = rest_without [''hashedPassword'', ''saltPassword''] (user_object u)"
  using assms
  by (auto simp: loginUser_def Let_def split: if_splits sum.splits option.splits)

lemma getUserById_data:
  assumes "data (getUserById db uid) = Some pu"
  shows "\<exists>u. pu = rest_without [''hashedPassword'', ''saltPassword''] (user_object u)"
  using assms
  by (auto simp: getUserById_def split: if_splits sum.splits option.splits)

lemma find_users_store:
  "find (\<lambda>u. u_email u = ''a@x.com'') (users_table users_store) = Some alice"
  "find (\<lambda>u. u_email u = ''b@x.com'') (users_table users_store) = Some bob"
  "find (\<lambda>u. u_email u = ''c@x.com'') (users_table users_store) = None"
  "find (\<lambda>u. u_id u = ''u1'') (users_table users_store) = Some alice"
  "unavailable users_store = None"
  "now users_store = 100"
  by (simp_all add: users_store_def empty_store_def alice_def bob_def)

lemma login_alice:
  "loginUser mock_pbkdf2 users_store \<lparr>lr_email = ''a@x.com'', lr_password = ''hunter2''\<rparr> =
     \<lparr>success = True, data = Some alice_public, error = None\<rparr>"
  by (simp add: loginUser_def findFirst_def find_users_store Let_def)
     (simp add: alice_def verifyPassword_def createPasswordHash_def Let_def rest_without_def
        user_object_def alice_public_def role_name_def)

lemma get_alice:
  "getUserById users_store ''u1'' = \<lparr>success = True, data = Some alice_public, error = None\<rparr>"
  by (simp add: getUserById_def findFirst_def find_users_store)
     (simp add: alice_def rest_without_def user_object_def alice_public_def role_name_def)

lemma signup_carol:
  "fst (createNewUser mock_pbkdf2 mock_randomBytes ''u3'' id users_store carol_request) =
     \<lparr>success = True, data = Some carol_public, error = None\<rparr>"
  by (simp add: createNewUser_def checkEmail_def findFirst_def carol_request_def find_users_store
        Let_def split_beta insert_users_def)
     (simp add: users_store_def empty_store_def alice_def bob_def rest_without_def
        user_object_def carol_public_def role_name_def role_value_def)

text \<open>
  C3. Whenever \<open>createNewUser\<close>, \<open>loginUser\<close> or \<open>getUserById\<close> returns a user
  (\<open>data\<close> is set), the object has neither the property \<open>hashedPassword\<close> nor the
  property \<open>saltPassword\<close>: its properties are exactly the seven public ones, for every
  store, request and user.
\<close>

theorem returned_user_is_public:
  "(\<forall>pu. data (fst (createNewUser pbkdf2Sync randomBytes randomUUID concurrent db signupData)) = Some pu
      \<longrightarrow> \<not> has_property pu ''hashedPassword'' \<and> \<not> has_property pu ''saltPassword'' \<and>
          map fst pu = public_keys) \<and>
   (\<forall>pu. data (loginUser pbkdf2Sync db loginData) = Some pu
      \<longrightarrow> \<not> has_property pu ''hashedPassword'' \<and> \<not> has_property pu ''saltPassword'' \<and>
          map fst pu = public_keys) \<and>
   (\<forall>pu. data (getUserById db userId) = Some pu
      \<longrightarrow> \<not> has_property pu ''hashedPassword'' \<and> \<not> has_property pu ''saltPassword'' \<and>
          map fst pu = public_keys)"
  using createNewUser_data loginUser_data getUserById_data public_user_hides public_user_keys
  by metis

theorem returned_user_is_public_witness:
  "data (fst (createNewUser mock_pbkdf2 mock_randomBytes ''u3'' id users_store carol_request)) = Some carol_public \<and>
   \<not> has_property carol_public ''hashedPassword'' \<and> \<not> has_property carol_public ''saltPassword'' \<and>
   data (loginUser mock_pbkdf2 users_store \<lparr>lr_email = ''a@x.com'', lr_password = ''hunter2''\<rparr>) = Some alice_public \<and>
   data (getUserById users_store ''u1'') = Some alice_public \<and>
   \<not> has_property alice_public ''hashedPassword'' \<and> \<not> has_property alice_public ''saltPassword''"
proof -
  note t = returned_user_is_public [of mock_pbkdf2 mock_randomBytes "''u3''" id users_store carol_request
      "\<lparr>lr_email = ''a@x.com'', lr_password = ''hunter2''\<rparr>" "''u1''"]
  have c: "data (fst (createNewUser mock_pbkdf2 mock_randomBytes ''u3'' id users_store carol_request)) = Some carol_public"
    by (simp add: signup_carol)
  have l: "data (loginUser mock_pbkdf2 users_store \<lparr>lr_email = ''a@x.com'', lr_password = ''hunter2''\<rparr>) = Some alice_public"
    by (simp add: login_alice)
  have g: "data (getUserById users_store ''u1'') = Some alice_public"
    by (simp add: get_alice)
  from t c l g show ?thesis by blast
qed

lemma find_unique:
  "distinct (map f xs) \<Longrightarrow> x \<in> set xs \<Longrightarrow> find (\<lambda>u. f u = f x) xs = Some x"
  by (induction xs) auto

lemma find_absent:
  "a \<notin> set (map f xs) \<Longrightarrow> find (\<lambda>u. f u = a) xs = None"
  by (induction xs) auto

lemma findFirst_by_email:
  assumes "unavailable db = None" and "distinct (map u_email (users_table db))"
      and "user \<in> set (users_table db)" and "u_email user = email"
  shows "findFirst db users_table (\<lambda>users. u_email users = email) = Inr (Some user)"
  using assms find_unique [of u_email "users_table db" user]
  by (auto simp: findFirst_def)

lemma findFirst_no_email:
  assumes "unavailable db = None" and "email \<notin> set (map u_email (users_table db))"
  shows "findFirst db users_table (\<lambda>users. u_email users = email) = Inr None"
  using assms find_absent [of email u_email "users_table db"]
  by (simp add: findFirst_def)

lemma checkEmail_result:
  assumes "unavailable db = None"
  shows "checkEmail db email =
           \<lparr>success = True, data = Some (email \<in> set (map u_email (users_table db))), error = None\<rparr>"
proof -
  have "(find (\<lambda>users. u_email users = email) (users_table db) \<noteq> None) =
        (email \<in> set (map u_email (users_table db)))"
    by (induction "users_table db") (auto simp: find_None_iff)
  with assms show ?thesis
    by (simp add: checkEmail_def findFirst_def)
qed

lemma users_store_distinct: "distinct (map u_email (users_table users_store))"
  by (simp add: users_store_def empty_store_def alice_def bob_def)

lemma users_store_members:
  "alice \<in> set (users_table users_store)" "bob \<in> set (users_table users_store)"
  "''c@x.com'' \<notin> set (map u_email (users_table users_store))"
  "u_email alice = ''a@x.com''" "u_email bob = ''b@x.com''" "u_is_active alice" "\<not> u_is_active bob"
  by (simp_all add: users_store_def empty_store_def alice_def bob_def)

lemma verify_alice:
  "verifyPassword mock_pbkdf2 ''hunter2'' (u_hashedPassword alice) (u_saltPassword alice)"
  "\<not> verifyPassword mock_pbkdf2 ''hunter'' (u_hashedPassword alice) (u_saltPassword alice)"
  "verifyPassword mock_pbkdf2 ''swordfish'' (u_hashedPassword bob) (u_saltPassword bob)"
  by (simp_all add: alice_def bob_def verifyPassword_def createPasswordHash_def Let_def
        toString_hex_inj mock_pbkdf2_def)

text \<open>
  C4, as amended. For a signup request with non-empty name, email and password and a
  role that is absent, \<open>admin\<close> or \<open>consumer\<close>, on a store that answers: when the email
  is in the store at the existence check, signup fails with "Email already registered"
  and leaves the store as it was; when the email is not there at the check but another
  request has committed it before the insert, the insert raises the uniqueness
  violation and signup fails with that exception's own message, as for any other store
  exception.
\<close>

theorem createNewUser_duplicate_email:
  assumes "sr_full_name signupData \<noteq> []" and "sr_email signupData \<noteq> []"
      and "sr_password signupData \<noteq> []"
      and "sr_role signupData \<in> {None, Some ''admin'', Some ''consumer''}"
      and "unavailable db = None"
  shows
   "(sr_email signupData \<in> set (map u_email (users_table db)) \<longrightarrow>
       createNewUser pbkdf2Sync randomBytes randomUUID concurrent db signupData =
         (\<lparr>success = False, data = None, error = Some ''Email already registered''\<rparr>, db)) \<and>
    (sr_email signupData \<notin> set (map u_email (users_table db)) \<and>
     unavailable (concurrent db) = None \<and>
     randomUUID \<notin> set (map u_id (users_table (concurrent db))) \<and>
     sr_email signupData \<in> set (map u_email (users_table (concurrent db))) \<longrightarrow>
       createNewUser pbkdf2Sync randomBytes randomUUID concurrent db signupData =
         (\<lparr>success = False, data = None,
           error = Some (err_message (unique_violation (concurrent db) ''users_email_unique''))\<rparr>,
          concurrent db))"
  using assms
  by (auto simp: createNewUser_def checkEmail_result Let_def split_beta insert_users_def)

text \<open>
  The claim as stated fails on the second path: a rival commits Alice's email between
  the check and the insert, and the result carries the driver's message, not
  "Email already registered".
\<close>

theorem createNewUser_race_counterexample:
  "fst (createNewUser mock_pbkdf2 mock_randomBytes ''u9'' rival_signup empty_store alice_again) =
     \<lparr>success = False, data = None,
      error = Some ''duplicate key value violates unique constraint users_email_unique''\<rparr> \<and>
   ''a@x.com'' \<in> set (map u_email (users_table (rival_signup empty_store))) \<and>
   error (fst (createNewUser mock_pbkdf2 mock_randomBytes ''u9'' rival_signup empty_store alice_again))
     \<noteq> Some ''Email already registered''"
  by (simp add: createNewUser_def checkEmail_def findFirst_def alice_again_def Let_def split_beta
        insert_users_def rival_signup_def empty_store_def alice_def pg_unique_violation_def)

theorem createNewUser_duplicate_email_witness:
  "createNewUser mock_pbkdf2 mock_randomBytes ''u9'' id users_store alice_again =
     (\<lparr>success = False, data = None, error = Some ''Email already registered''\<rparr>, users_store) \<and>
   createNewUser mock_pbkdf2 mock_randomBytes ''u9'' rival_signup empty_store alice_again =
     (\<lparr>success = False, data = None,
       error = Some (err_message (pg_unique_violation ''users_email_unique''))\<rparr>,
      rival_signup empty_store)"
proof -
  have a: "createNewUser mock_pbkdf2 mock_randomBytes ''u9'' id users_store alice_again =
     (\<lparr>success = False, data = None, error = Some ''Email already registered''\<rparr>, users_store)"
    using createNewUser_duplicate_email [of alice_again users_store mock_pbkdf2 mock_randomBytes "''u9''" id]
    by (simp add: alice_again_def users_store_def empty_store_def alice_def bob_def)
  have b: "createNewUser mock_pbkdf2 mock_randomBytes ''u9'' rival_signup empty_store alice_again =
     (\<lparr>success = False, data = None,
       error = Some (err_message (pg_unique_violation ''users_email_unique''))\<rparr>,
      rival_signup empty_store)"
    using createNewUser_duplicate_email [of alice_again empty_store mock_pbkdf2 mock_randomBytes "''u9''" rival_signup]
    by (simp add: alice_again_def rival_signup_def empty_store_def alice_def)
  from a b show ?thesis by simp
qed

text \<open>
  C5. For a login request with non-empty email and password, on a store that answers
  and holds each email once: when no user has the email, login fails with
  "Invalid email or password"; when the user exists and is deactivated, it fails with
  the distinct "Account is deactivated"; when the user is active and the password does
  not verify, it fails with the same "Invalid email or password" as for an unknown
  email; when the user is active and the password verifies, it succeeds with the
  user's public object.
\<close>

theorem loginUser_outcomes:
  assumes "lr_email loginData \<noteq> []" and "lr_password loginData \<noteq> []"
      and "unavailable db = None" and "distinct (map u_email (users_table db))"
  shows
   "(lr_email loginData \<notin> set (map u_email (users_table db)) \<longrightarrow>
       loginUser pbkdf2Sync db loginData =
         \<lparr>success = False, data = None, error = Some ''Invalid email or password''\<rparr>) \<and>
    (\<forall>user \<in> set (users_table db). u_email user = lr_email loginData \<longrightarrow>
       loginUser pbkdf2Sync db loginData =
         (if \<not> u_is_active user then
            \<lparr>success = False, data = None, error = Some ''Account is deactivated''\<rparr>
          else if \<not> verifyPassword pbkdf2Sync (lr_password loginData)
                      (u_hashedPassword user) (u_saltPassword user) then
            \<lparr>success = False, data = None, error = Some ''Invalid email or password''\<rparr>
          else
            \<lparr>success = True,
             data = Some (rest_without [''hashedPassword'', ''saltPassword''] (user_object user)),
             error = None\<rparr>))"
proof (intro conjI impI ballI)
  assume "lr_email loginData \<notin> set (map u_email (users_table db))"
  with assms show "loginUser pbkdf2Sync db loginData =
         \<lparr>success = False, data = None, error = Some ''Invalid email or password''\<rparr>"
    by (simp add: loginUser_def Let_def findFirst_no_email)
next
  fix user
  assume "user \<in> set (users_table db)" and "u_email user = lr_email loginData"
  with assms have "findFirst db users_table (\<lambda>users. u_email users = lr_email loginData) = Inr (Some user)"
    by (simp add: findFirst_by_email)
  with assms show "loginUser pbkdf2Sync db loginData =
         (if \<not> u_is_active user then
            \<lparr>success = False, data = None, error = Some ''Account is deactivated''\<rparr>
          else if \<not> verifyPassword pbkdf2Sync (lr_password loginData)
                      (u_hashedPassword user) (u_saltPassword user) then
            \<lparr>success = False, data = None, error = Some ''Invalid email or password''\<rparr>
          else
            \<lparr>success = True,
             data = Some (rest_without [''hashedPassword'', ''saltPassword''] (user_object user)),
             error = None\<rparr>)"
    by (simp add: loginUser_def Let_def)
qed

theorem loginUser_outcomes_witness:
  "loginUser mock_pbkdf2 users_store \<lparr>lr_email = ''c@x.com'', lr_password = ''hunter2''\<rparr> =
     \<lparr>success = False, data = None, error = Some ''Invalid email or password''\<rparr> \<and>
   loginUser mock_pbkdf2 users_store \<lparr>lr_email = ''a@x.com'', lr_password = ''hunter''\<rparr> =
     \<lparr>success = False, data = None, error = Some ''Invalid email or password''\<rparr> \<and>
   loginUser mock_pbkdf2 users_store \<lparr>lr_email = ''b@x.com'', lr_password = ''swordfish''\<rparr> =
     \<lparr>success = False, data = None, error = Some ''Account is deactivated''\<rparr> \<and>
   loginUser mock_pbkdf2 users_store \<lparr>lr_email = ''a@x.com'', lr_password = ''hunter2''\<rparr> =
     \<lparr>success = True,
      data = Some (rest_without [''hashedPassword'', ''saltPassword''] (user_object alice)),
      error = None\<rparr>"
proof -
  have a: "loginUser mock_pbkdf2 users_store \<lparr>lr_email = ''c@x.com'', lr_password = ''hunter2''\<rparr> =
     \<lparr>success = False, data = None, error = Some ''Invalid email or password''\<rparr>"
    using loginUser_outcomes [of "\<lparr>lr_email = ''c@x.com'', lr_password = ''hunter2''\<rparr>" users_store mock_pbkdf2]
      users_store_members
    by (simp add: users_store_distinct find_users_store)
  have b: "loginUser mock_pbkdf2 users_store \<lparr>lr_email = ''a@x.com'', lr_password = ''hunter''\<rparr> =
     \<lparr>success = False, data = None, error = Some ''Invalid email or password''\<rparr>"
    using loginUser_outcomes [of "\<lparr>lr_email = ''a@x.com'', lr_password = ''hunter''\<rparr>" users_store mock_pbkdf2]
      users_store_members verify_alice
    by (simp add: users_store_distinct find_users_store)
  have c: "loginUser mock_pbkdf2 users_store \<lparr>lr_email = ''b@x.com'', lr_password = ''swordfish''\<rparr> =
     \<lparr>success = False, data = None, error = Some ''Account is deactivated''\<rparr>"
    using loginUser_outcomes [of "\<lparr>lr_email = ''b@x.com'', lr_password = ''swordfish''\<rparr>" users_store mock_pbkdf2]
      users_store_members
    by (simp add: users_store_distinct find_users_store)
  have d: "loginUser mock_pbkdf2 users_store \<lparr>lr_email = ''a@x.com'', lr_password = ''hunter2''\<rparr> =
     \<lparr>success = True,
      data = Some (rest_without [''hashedPassword'', ''saltPassword''] (user_object alice)),
      error = None\<rparr>"
    using loginUser_outcomes [of "\<lparr>lr_email = ''a@x.com'', lr_password = ''hunter2''\<rparr>" users_store mock_pbkdf2]
      users_store_members verify_alice
    by (simp add: users_store_distinct find_users_store)
  from a b c d show ?thesis by simp
qed

text \<open>
  C10. \<open>loginUser\<close> tests \<open>is_active\<close> before it verifies the password: for a
  deactivated user the result is "Account is deactivated", and it is the same result
  for every other non-empty password and every key derivation function, so it does not
  depend on the stored hash being recomputed or compared.
\<close>

theorem loginUser_deactivated_first:
  assumes "lr_email loginData \<noteq> []" and "lr_password loginData \<noteq> []"
      and "unavailable db = None" and "distinct (map u_email (users_table db))"
      and "user \<in> set (users_table db)" and "u_email user = lr_email loginData"
      and "\<not> u_is_active user"
  shows "loginUser pbkdf2Sync db loginData =
           \<lparr>success = False, data = None, error = Some ''Account is deactivated''\<rparr> \<and>
         (\<forall>pbkdf2Sync' password. password \<noteq> [] \<longrightarrow>
            loginUser pbkdf2Sync' db (loginData\<lparr>lr_password := password\<rparr>) =
              loginUser pbkdf2Sync db loginData)"
proof -
  from assms have "findFirst db users_table (\<lambda>users. u_email users = lr_email loginData) = Inr (Some user)"
    by (simp add: findFirst_by_email)
  with assms show ?thesis
    by (simp add: loginUser_def Let_def)
qed

theorem loginUser_deactivated_first_witness:
  "loginUser mock_pbkdf2 users_store \<lparr>lr_email = ''b@x.com'', lr_password = ''swordfish''\<rparr> =
     \<lparr>success = False, data = None, error = Some ''Account is deactivated''\<rparr> \<and>
   loginUser mock_pbkdf2 users_store \<lparr>lr_email = ''b@x.com'', lr_password = ''wrong''\<rparr> =
     \<lparr>success = False, data = None, error = Some ''Account is deactivated''\<rparr> \<and>
   verifyPassword mock_pbkdf2 ''swordfish'' (u_hashedPassword bob) (u_saltPassword bob)"
proof -
  note t = loginUser_deactivated_first
      [of "\<lparr>lr_email = ''b@x.com'', lr_password = ''swordfish''\<rparr>" users_store bob mock_pbkdf2]
  have h: "loginUser mock_pbkdf2 users_store \<lparr>lr_email = ''b@x.com'', lr_password = ''swordfish''\<rparr> =
           \<lparr>success = False, data = None, error = Some ''Account is deactivated''\<rparr> \<and>
         (\<forall>pbkdf2Sync' password. password \<noteq> [] \<longrightarrow>
            loginUser pbkdf2Sync' users_store (\<lparr>lr_email = ''b@x.com'', lr_password = ''swordfish''\<rparr>\<lparr>lr_password := password\<rparr>) =
              loginUser mock_pbkdf2 users_store \<lparr>lr_email = ''b@x.com'', lr_password = ''swordfish''\<rparr>)"
    using t users_store_members by (simp add: users_store_distinct find_users_store)
  then have "loginUser mock_pbkdf2 users_store (\<lparr>lr_email = ''b@x.com'', lr_password = ''swordfish''\<rparr>\<lparr>lr_password := ''wrong''\<rparr>) =
     \<lparr>success = False, data = None, error = Some ''Account is deactivated''\<rparr>"
    by simp
  with h verify_alice show ?thesis by simp
qed

section \<open>Purchase status transitions\<close>

lemma find_set_status:
  assumes "find (\<lambda>p. p_id p = purchaseId) (purchase_history_table db) = Some p"
  shows "find (\<lambda>p. p_id p = purchaseId) (set_status db purchaseId st) =
           Some (p\<lparr>p_status := st, p_updated_at := now db\<rparr>)"
proof -
  have "find (\<lambda>p. p_id p = purchaseId) xs = Some p \<Longrightarrow>
        find (\<lambda>p. p_id p = purchaseId)
          (map (\<lambda>q. if p_id q = purchaseId then q\<lparr>p_status := st, p_updated_at := now db\<rparr> else q) xs) =
          Some (p\<lparr>p_status := st, p_updated_at := now db\<rparr>)" for xs
    by (induction xs) (auto split: if_splits)
  with assms show ?thesis by (simp add: set_status_def)
qed

text \<open>
  C6. For a purchase found by its identifier: \<open>confirmPayment\<close> succeeds exactly from
  \<open>pending\<close> and makes the status \<open>completed\<close>; \<open>processRefund\<close> succeeds exactly from
  \<open>completed\<close> and makes it \<open>refunded\<close>; every other attempt (in particular
  \<open>processRefund\<close> on \<open>pending\<close>, and either operation on \<open>refunded\<close>) fails with
  \<open>InvalidTransition\<close> and returns the store unchanged, purchase and enrollment rows
  included.
\<close>

theorem purchase_status_transitions:
  assumes "find (\<lambda>p. p_id p = purchaseId) (purchase_history_table db) = Some p"
  shows
   "(p_status p = pending \<longrightarrow>
       (\<exists>e. fst (confirmPayment enrollmentId db purchaseId) =
              Inr (p\<lparr>p_status := completed, p_updated_at := now db\<rparr>, e)) \<and>
       find (\<lambda>p. p_id p = purchaseId)
         (purchase_history_table (snd (confirmPayment enrollmentId db purchaseId))) =
         Some (p\<lparr>p_status := completed, p_updated_at := now db\<rparr>)) \<and>
    (p_status p \<noteq> pending \<longrightarrow>
       confirmPayment enrollmentId db purchaseId = (Inl InvalidTransition, db)) \<and>
    (p_status p = completed \<longrightarrow>
       (\<exists>e. fst (processRefund db purchaseId) =
              Inr (p\<lparr>p_status := refunded, p_updated_at := now db\<rparr>, e)) \<and>
       find (\<lambda>p. p_id p = purchaseId)
         (purchase_history_table (snd (processRefund db purchaseId))) =
         Some (p\<lparr>p_status := refunded, p_updated_at := now db\<rparr>)) \<and>
    (p_status p \<noteq> completed \<longrightarrow>
       processRefund db purchaseId = (Inl InvalidTransition, db))"
  using assms find_set_status [OF assms]
  by (simp add: confirmPayment_def processRefund_def Let_def)

theorem purchase_status_transitions_witness:
  "processRefund purchase_store ''p1'' = (Inl InvalidTransition, purchase_store) \<and>
   (\<exists>e. fst (confirmPayment ''e2'' purchase_store ''p1'') =
          Inr (demo_purchase\<lparr>p_status := completed, p_updated_at := 100\<rparr>, e)) \<and>
   confirmPayment ''e3'' (snd (confirmPayment ''e2'' purchase_store ''p1'')) ''p1'' =
     (Inl InvalidTransition, snd (confirmPayment ''e2'' purchase_store ''p1''))"
proof -
  have f: "find (\<lambda>p. p_id p = ''p1'') (purchase_history_table purchase_store) = Some demo_purchase"
    by (simp add: purchase_store_def demo_purchase_def)
  have n: "now purchase_store = 100"
    by (simp add: purchase_store_def demo_store_def empty_store_def)
  have s: "p_status demo_purchase = pending" by (simp add: demo_purchase_def)
  note t = purchase_status_transitions [OF f]
  have a: "processRefund purchase_store ''p1'' = (Inl InvalidTransition, purchase_store)"
    using t s by simp
  have b: "(\<exists>e. fst (confirmPayment ''e2'' purchase_store ''p1'') =
          Inr (demo_purchase\<lparr>p_status := completed, p_updated_at := 100\<rparr>, e))"
    using t [of "''e2''"] s n by simp
  have f2: "find (\<lambda>p. p_id p = ''p1'')
         (purchase_history_table (snd (confirmPayment ''e2'' purchase_store ''p1''))) =
         Some (demo_purchase\<lparr>p_status := completed, p_updated_at := 100\<rparr>)"
    using t [of "''e2''"] s n by simp
  have c: "confirmPayment ''e3'' (snd (confirmPayment ''e2'' purchase_store ''p1'')) ''p1'' =
     (Inl InvalidTransition, snd (confirmPayment ''e2'' purchase_store ''p1''))"
    using purchase_status_transitions [OF f2, of "''e3''"] by simp
  from a b c show ?thesis by simp
qed

end
